theory Spec2Isabelle
  imports Complex_Main
begin

text \<open>
  The Storybook scenario \<open>PlayerInspector.stories.tsx\<close>: the mocked routes it registers
  (the snapshots route that branches on the \<open>source\<close> query parameter, the query route
  that branches on the parsed body) and the \<open>BasicTemplate\<close> component, which calls
  \<open>loadSnapshots\<close> at every render and \<open>loadEvents\<close> from an effect keyed on
  \<open>sessionPlayerMetaData\<close>.
\<close>

section \<open>JavaScript values and property reads\<close>

text \<open>
  The values a parsed request body and a JSON fixture can hold. A number is the real it
  denotes; an object is its list of own properties, the first binding of a key being the
  effective one.
\<close>

datatype jsval =
    JUndefined
  | JNull
  | JBool bool
  | JNum real
  | JStr string
  | JArr "jsval list"
  | JObj "(string \<times> jsval) list"

datatype error = TypeError

text \<open>
  \<open>v.k\<close>: reading a property of \<open>undefined\<close> or \<open>null\<close> throws a TypeError; an
  object gives its own property or \<open>undefined\<close>; arrays and strings have \<open>length\<close>;
  every other read gives \<open>undefined\<close>. Inherited members and array indices are left
  out: the handlers below read only \<open>query\<close>, \<open>kind\<close>, \<open>properties\<close> and \<open>length\<close>.
\<close>

fun getProp :: "jsval \<Rightarrow> string \<Rightarrow> error + jsval" where
  "getProp JUndefined k = Inl TypeError"
| "getProp JNull k = Inl TypeError"
| "getProp (JBool b) k = Inr JUndefined"
| "getProp (JNum n) k = Inr JUndefined"
| "getProp (JStr s) k = Inr (if k = ''length'' then JNum (real (length s)) else JUndefined)"
| "getProp (JArr xs) k = Inr (if k = ''length'' then JNum (real (length xs)) else JUndefined)"
| "getProp (JObj kvs) k = Inr (case map_of kvs k of None \<Rightarrow> JUndefined | Some v \<Rightarrow> v)"

section \<open>Requests and mocked responses\<close>

datatype http_method = GET | POST

text \<open>
  The intercepted request, as far as the handlers look at it: \<open>req.url.pathname\<close>,
  \<open>req.url.searchParams\<close> (an ordered list of name/value pairs) and \<open>req.body\<close>.
\<close>

record request =
  req_method :: http_method
  url_pathname :: string
  url_searchParams :: "(string \<times> string) list"
  req_body :: jsval

text \<open>\<open>URLSearchParams.get(name)\<close>: the first value given for the name, or \<open>null\<close>.\<close>

definition searchParams_get :: "(string \<times> string) list \<Rightarrow> string \<Rightarrow> string option" where
  "searchParams_get ps name = map_of ps name"

datatype payload = NoBody | TextBody string | JsonBody jsval

record response =
  status :: nat
  content_type :: "string option"
  res_body :: payload

text \<open>
  The response composition of the mocking library: \<open>res(t)\<close> applies the transformer
  \<open>t\<close> to a fresh response of status 200; \<open>ctx.text\<close> sets a text body as it is and
  \<open>ctx.json\<close> a JSON body, each with its content type.
\<close>

definition ctx_text :: "string \<Rightarrow> response \<Rightarrow> response" where
  "ctx_text s r = r\<lparr>content_type := Some ''text/plain'', res_body := TextBody s\<rparr>"

definition ctx_json :: "jsval \<Rightarrow> response \<Rightarrow> response" where
  "ctx_json v r = r\<lparr>content_type := Some ''application/json'', res_body := JsonBody v\<rparr>"

definition res :: "(response \<Rightarrow> response) \<Rightarrow> response" where
  "res t = t \<lparr>status = 200, content_type = None, res_body = NoBody\<rparr>"

text \<open>
  A handler function returns either a composed response or the pair
  \<open>[status, payload]\<close>.
\<close>

datatype handler_return = StatusPayload nat jsval | Mocked response

section \<open>Fixtures\<close>

text \<open>
  The three imported datasets are parameters: \<open>recordingMetaJson\<close>,
  \<open>recordingEventsJson\<close> and the text that \<open>snapshotsAsJSONLines()\<close> returns.
\<close>

record fixtures =
  recordingMetaJson :: jsval
  recordingEventsJson :: jsval
  snapshotsAsJSONLines :: string

section \<open>The handlers of the story\<close>

definition sources_payload :: jsval where
  "sources_payload =
     JObj [(''sources'',
       JArr [JObj [(''source'', JStr ''blob''),
                   (''start_timestamp'', JStr ''2023-08-11T12:03:36.097000Z''),
                   (''end_timestamp'', JStr ''2023-08-11T12:04:52.268000Z''),
                   (''blob_key'', JStr ''1691755416097-1691755492268'')]])]"

text \<open>GET \<open>/api/environments/:team_id/session_recordings/:id/snapshots\<close>.\<close>

definition snapshots_handler :: "fixtures \<Rightarrow> request \<Rightarrow> error + handler_return" where
  "snapshots_handler fx req =
     (if searchParams_get (url_searchParams req) ''source'' = Some ''blob''
      then Inr (Mocked (res (ctx_text (snapshotsAsJSONLines fx))))
      else Inr (StatusPayload 200 sources_payload))"

text \<open>
  The condition of the query handler,
  \<open>body.query.kind === 'EventsQuery' && body.query.properties.length === 1\<close>:
  each property read can throw, and \<open>&&\<close> reads \<open>properties\<close> only when the kind is
  \<open>EventsQuery\<close>.
\<close>

definition events_query_with_one_property :: "jsval \<Rightarrow> error + bool" where
  "events_query_with_one_property body =
     (case getProp body ''query'' of
        Inl e \<Rightarrow> Inl e
      | Inr q \<Rightarrow>
          (case getProp q ''kind'' of
             Inl e \<Rightarrow> Inl e
           | Inr k \<Rightarrow>
               if k = JStr ''EventsQuery''
               then (case getProp q ''properties'' of
                       Inl e \<Rightarrow> Inl e
                     | Inr ps \<Rightarrow>
                         (case getProp ps ''length'' of
                            Inl e \<Rightarrow> Inl e
                          | Inr n \<Rightarrow> Inr (n = JNum 1)))
               else Inr False))"

definition empty_results :: jsval where
  "empty_results = JObj [(''results'', JArr [])]"

text \<open>POST \<open>/api/environments/:team_id/query\<close>.\<close>

definition query_handler :: "fixtures \<Rightarrow> request \<Rightarrow> error + handler_return" where
  "query_handler fx req =
     (case events_query_with_one_property (req_body req) of
        Inl e \<Rightarrow> Inl e
      | Inr True \<Rightarrow> Inr (Mocked (res (ctx_json (recordingEventsJson fx))))
      | Inr False \<Rightarrow> Inr (Mocked (res (ctx_json empty_results))))"

section \<open>The registration table and its resolution\<close>

text \<open>
  A handler is a literal payload or a function of the request; the table
  maps a method to its path templates in the order they are written.
\<close>

datatype handler = Literal jsval | Function "request \<Rightarrow> error + handler_return"

definition meta_route :: string where
  "meta_route = ''/api/environments/:team_id/session_recordings/:id''"

definition snapshots_route :: string where
  "snapshots_route = ''/api/environments/:team_id/session_recordings/:id/snapshots''"

definition query_route :: string where
  "query_route = ''/api/environments/:team_id/query''"

definition mocks :: "fixtures \<Rightarrow> http_method \<Rightarrow> (string \<times> handler) list" where
  "mocks fx m =
     (case m of
        GET \<Rightarrow> [(meta_route, Literal (recordingMetaJson fx)),
                (snapshots_route, Function (snapshots_handler fx))]
      | POST \<Rightarrow> [(query_route, Function (query_handler fx))])"

text \<open>
  Modelled from the spec: the route matcher behind \<open>mswDecorator\<close> (\<open>~/mocks/browser\<close>,
  not among the sources). Matching is structural: template and path are cut at every
  \<open>/\<close>, the segment counts are equal, a literal segment equals its counterpart and a
  dynamic segment (\<open>:name\<close>) accepts any non-empty token. A request that no template of
  its method matches is \<open>NoMatch\<close>; otherwise the handler is run on the request.
\<close>

fun split_path :: "string \<Rightarrow> string list" where
  "split_path [] = [[]]"
| "split_path (c # cs) =
     (if c = CHR ''/'' then [] # split_path cs
      else (case split_path cs of [] \<Rightarrow> [[c]] | s # ss \<Rightarrow> (c # s) # ss))"

definition segment_matches :: "string \<Rightarrow> string \<Rightarrow> bool" where
  "segment_matches t s =
     (case t of
        [] \<Rightarrow> s = []
      | c # name \<Rightarrow> if c = CHR '':'' then s \<noteq> [] else s = t)"

definition path_matches :: "string \<Rightarrow> string \<Rightarrow> bool" where
  "path_matches template path =
     list_all2 segment_matches (split_path template) (split_path path)"

fun find_route :: "(string \<times> handler) list \<Rightarrow> string \<Rightarrow> handler option" where
  "find_route [] path = None"
| "find_route ((template, h) # rs) path =
     (if path_matches template path then Some h else find_route rs path)"

datatype outcome = NoMatch | Raised error | LiteralPayload jsval | Returned handler_return

definition resolve :: "fixtures \<Rightarrow> request \<Rightarrow> outcome" where
  "resolve fx req =
     (case find_route (mocks fx (req_method req)) (url_pathname req) of
        None \<Rightarrow> NoMatch
      | Some (Literal v) \<Rightarrow> LiteralPayload v
      | Some (Function f) \<Rightarrow> (case f req of Inl e \<Rightarrow> Raised e | Inr r \<Rightarrow> Returned r))"

section \<open>The story component and its load calls\<close>

text \<open>
  Modelled from the spec: the lifecycle of a piece of loaded state in
  \<open>sessionRecordingDataLogic\<close> (not among the sources),
  unloaded, loading, loaded with a value, or failed with an error; and the value that
  \<open>useValues\<close> reads for \<open>sessionPlayerMetaData\<close>, present once the state is loaded and
  absent before.
\<close>

datatype 'm LoadState = Unloaded | Loading | Loaded 'm | Failed string

fun sessionPlayerMetaData :: "'m LoadState \<Rightarrow> 'm option" where
  "sessionPlayerMetaData (Loaded m) = Some m"
| "sessionPlayerMetaData _ = None"

datatype action = loadSnapshots | loadEvents

text \<open>
  \<open>useEffect(effect, [dep])\<close>: the hook keeps the dependency of the previous render
  (none before the first); the effect runs after the first render, and after a later
  render when the dependency differs from the kept one. Equality of the model's values
  stands for the identity comparison of the library.
\<close>

definition useEffect :: "'d option \<Rightarrow> 'a list \<Rightarrow> 'd \<Rightarrow> 'a list \<times> 'd option" where
  "useEffect kept effect dep =
     ((case kept of None \<Rightarrow> effect | Some d \<Rightarrow> if d = dep then [] else effect), Some dep)"

text \<open>
  One render of \<open>BasicTemplate\<close>: it reads \<open>sessionPlayerMetaData\<close>, calls
  \<open>loadSnapshots()\<close> in the render itself, and registers the effect that calls
  \<open>loadEvents()\<close> with the dependency \<open>[sessionPlayerMetaData]\<close>. The result is the
  actions dispatched, in order, and the hook's new memory.
\<close>

definition BasicTemplate ::
  "'m option option \<Rightarrow> 'm LoadState \<Rightarrow> action list \<times> 'm option option" where
  "BasicTemplate kept store =
     (case useEffect kept [loadEvents] (sessionPlayerMetaData store) of
        (effects, kept') \<Rightarrow> (loadSnapshots # effects, kept'))"

text \<open>
  An execution of the story: the component is mounted and rendered once for each entry
  of the list, which gives the metadata state in the store at that render. The trace
  pairs every dispatched action with the metadata state it was dispatched in.
\<close>

fun renders :: "'m option option \<Rightarrow> 'm LoadState list \<Rightarrow> ('m LoadState \<times> action) list" where
  "renders kept [] = []"
| "renders kept (s # ss) =
     (case BasicTemplate kept s of
        (acts, kept') \<Rightarrow> map (Pair s) acts @ renders kept' ss)"

definition story :: "'m LoadState list \<Rightarrow> ('m LoadState \<times> action) list" where
  "story ss = renders None ss"

definition issued :: "action \<Rightarrow> ('m LoadState \<times> action) list \<Rightarrow> 'm LoadState list" where
  "issued a tr = map fst (filter (\<lambda>e. snd e = a) tr)"

section \<open>The data-loading facade\<close>

text \<open>
  Modelled from the spec: \<open>startLoad(kind)\<close> of the data-loading facade
  (\<open>sessionRecordingDataLogic\<close>, whose actions the story only calls). A start call moves
  an unloaded state to loading and issues one simulated request, recorded as an
  interception; in any other state, loading included, it is a no-op.
\<close>

record ('k, 'm) facade =
  loadState :: "'k \<Rightarrow> 'm LoadState"
  interceptions :: "'k list"

definition startLoad :: "'k \<Rightarrow> ('k, 'm) facade \<Rightarrow> ('k, 'm) facade" where
  "startLoad kind st =
     (case loadState st kind of
        Unloaded \<Rightarrow> st\<lparr>loadState := (loadState st)(kind := Loading),
                       interceptions := interceptions st @ [kind]\<rparr>
      | _ \<Rightarrow> st)"

section \<open>Auxiliary notions for the statements\<close>

text \<open>
  \<open>nullish v\<close>: \<open>v\<close> is \<open>undefined\<close> or \<open>null\<close>, the values whose properties cannot
  be read. \<open>read v k\<close> is the value of \<open>v.k\<close> where the read succeeds.
\<close>

definition nullish :: "jsval \<Rightarrow> bool" where
  "nullish v = (v = JUndefined \<or> v = JNull)"

definition read :: "jsval \<Rightarrow> string \<Rightarrow> jsval" where
  "read v k = (case getProp v k of Inl e \<Rightarrow> JUndefined | Inr x \<Rightarrow> x)"

text \<open>
  The bodies on which every property read of the query handler succeeds: the body and
  \<open>body.query\<close> are not nullish and, for an \<open>EventsQuery\<close>, neither is
  \<open>body.query.properties\<close>.
\<close>

definition readable_query_body :: "jsval \<Rightarrow> bool" where
  "readable_query_body body =
     (if nullish body \<or> nullish (read body ''query'') then False
      else if read (read body ''query'') ''kind'' = JStr ''EventsQuery''
           then \<not> nullish (read (read body ''query'') ''properties'')
           else True)"

text \<open>Sample fixtures for the concrete instances below.\<close>

definition example_fixtures :: fixtures where
  "example_fixtures =
     \<lparr>recordingMetaJson = JObj [(''id'', JStr ''12345'')],
      recordingEventsJson = JObj [(''results'', JArr [JArr [JStr ''$pageview'']])],
      snapshotsAsJSONLines = ''{}''\<rparr>"

section \<open>Property reads\<close>

lemma getProp_read: "\<not> nullish v \<Longrightarrow> getProp v k = Inr (read v k)"
  by (cases v) (simp_all add: nullish_def read_def)

lemma getProp_nullish_TypeError: "nullish v \<Longrightarrow> getProp v k = Inl TypeError"
  by (cases v) (simp_all add: nullish_def)

section \<open>Which handler a request reaches\<close>

lemma path_matches_length:
  "path_matches t p \<Longrightarrow> length (split_path t) = length (split_path p)"
  unfolding path_matches_def by (rule list_all2_lengthD)

lemma length_split_meta: "length (split_path meta_route) = 6"
  by (simp add: meta_route_def)

lemma length_split_snapshots: "length (split_path snapshots_route) = 7"
  by (simp add: snapshots_route_def)

text \<open>The two GET templates differ in their segment count, so no path matches both.\<close>

lemma snapshots_not_meta:
  assumes "path_matches snapshots_route p"
  shows "\<not> path_matches meta_route p"
proof
  assume "path_matches meta_route p"
  then have "length (split_path p) = 6"
    using path_matches_length length_split_meta by metis
  moreover have "length (split_path p) = 7"
    using assms path_matches_length length_split_snapshots by metis
  ultimately show False by simp
qed

lemma resolve_snapshots:
  assumes "req_method req = GET" and "path_matches snapshots_route (url_pathname req)"
  shows "resolve fx req =
           (case snapshots_handler fx req of Inl e \<Rightarrow> Raised e | Inr r \<Rightarrow> Returned r)"
  using assms snapshots_not_meta [OF assms(2)]
  by (simp add: resolve_def mocks_def)

lemma resolve_query:
  assumes "req_method req = POST" and "path_matches query_route (url_pathname req)"
  shows "resolve fx req =
           (case query_handler fx req of Inl e \<Rightarrow> Raised e | Inr r \<Rightarrow> Returned r)"
  using assms by (simp add: resolve_def mocks_def)

text \<open>
  The metadata route is a literal: every GET request that matches it is answered with
  \<open>recordingMetaJson\<close>, so the mocked metadata request never fails.
\<close>

lemma resolve_meta:
  assumes "req_method req = GET" and "path_matches meta_route (url_pathname req)"
  shows "resolve fx req = LiteralPayload (recordingMetaJson fx)"
  using assms by (simp add: resolve_def mocks_def)

lemma example_snapshots_path:
  "path_matches snapshots_route ''/api/environments/1/session_recordings/12345/snapshots''"
  by (simp add: snapshots_route_def path_matches_def segment_matches_def)

lemma example_query_path: "path_matches query_route ''/api/environments/1/query''"
  by (simp add: query_route_def path_matches_def segment_matches_def)

section \<open>The snapshots route\<close>

text \<open>
  C7: a GET request that matches the snapshots route and has no \<open>source\<close> query
  parameter is answered with status 200 and exactly the sources list
  \<open>{sources: [{source: "blob", start_timestamp: "2023-08-11T12:03:36.097000Z",
  end_timestamp: "2023-08-11T12:04:52.268000Z", blob_key: "1691755416097-1691755492268"}]}\<close>.
\<close>

theorem snapshots_source_absent:
  assumes "req_method req = GET"
    and "path_matches snapshots_route (url_pathname req)"
    and "searchParams_get (url_searchParams req) ''source'' = None"
  shows "resolve fx req =
           Returned (StatusPayload 200
             (JObj [(''sources'',
                JArr [JObj [(''source'', JStr ''blob''),
                            (''start_timestamp'', JStr ''2023-08-11T12:03:36.097000Z''),
                            (''end_timestamp'', JStr ''2023-08-11T12:04:52.268000Z''),
                            (''blob_key'', JStr ''1691755416097-1691755492268'')]])]))"
  using assms(3)
  by (simp add: resolve_snapshots [OF assms(1,2)] snapshots_handler_def sources_payload_def)

theorem snapshots_source_absent_witness:
  "resolve example_fixtures
     \<lparr>req_method = GET,
      url_pathname = ''/api/environments/1/session_recordings/12345/snapshots'',
      url_searchParams = [], req_body = JUndefined\<rparr> =
   Returned (StatusPayload 200
     (JObj [(''sources'',
        JArr [JObj [(''source'', JStr ''blob''),
                    (''start_timestamp'', JStr ''2023-08-11T12:03:36.097000Z''),
                    (''end_timestamp'', JStr ''2023-08-11T12:04:52.268000Z''),
                    (''blob_key'', JStr ''1691755416097-1691755492268'')]])]))"
  by (rule snapshots_source_absent) (simp_all add: example_snapshots_path searchParams_get_def)

text \<open>
  C8: a GET request that matches the snapshots route with \<open>source=blob\<close> is answered
  with the snapshot text fixture as a raw text body (not a JSON body), status 200 and
  the content type \<open>text/plain\<close>.
\<close>

theorem snapshots_source_blob:
  assumes "req_method req = GET"
    and "path_matches snapshots_route (url_pathname req)"
    and "searchParams_get (url_searchParams req) ''source'' = Some ''blob''"
  shows "resolve fx req =
           Returned (Mocked \<lparr>status = 200, content_type = Some ''text/plain'',
                             res_body = TextBody (snapshotsAsJSONLines fx)\<rparr>)"
  using assms(3)
  by (simp add: resolve_snapshots [OF assms(1,2)] snapshots_handler_def res_def ctx_text_def)

theorem snapshots_source_blob_witness:
  "resolve example_fixtures
     \<lparr>req_method = GET,
      url_pathname = ''/api/environments/1/session_recordings/12345/snapshots'',
      url_searchParams = [(''source'', ''blob'')], req_body = JUndefined\<rparr> =
   Returned (Mocked \<lparr>status = 200, content_type = Some ''text/plain'',
                     res_body = TextBody (snapshotsAsJSONLines example_fixtures)\<rparr>)"
  by (rule snapshots_source_blob) (simp_all add: example_snapshots_path searchParams_get_def)

text \<open>
  C10: a GET request that matches the snapshots route and whose \<open>source\<close> parameter is
  present with a value other than exactly \<open>blob\<close> gets the sources list, the same
  answer as the request without query parameters.
\<close>

theorem snapshots_source_not_blob:
  assumes "req_method req = GET"
    and "path_matches snapshots_route (url_pathname req)"
    and "searchParams_get (url_searchParams req) ''source'' = Some v"
    and "v \<noteq> ''blob''"
  shows "resolve fx req = Returned (StatusPayload 200 sources_payload) \<and>
         resolve fx req = resolve fx (req\<lparr>url_searchParams := []\<rparr>)"
proof -
  have a: "resolve fx req = Returned (StatusPayload 200 sources_payload)"
    using assms(3,4) by (simp add: resolve_snapshots [OF assms(1,2)] snapshots_handler_def)
  have "resolve fx (req\<lparr>url_searchParams := []\<rparr>) = Returned (StatusPayload 200 sources_payload)"
    using assms(1,2) by (simp add: resolve_snapshots snapshots_handler_def searchParams_get_def)
  with a show ?thesis by simp
qed

theorem snapshots_source_not_blob_witness:
  "resolve example_fixtures
     \<lparr>req_method = GET,
      url_pathname = ''/api/environments/1/session_recordings/12345/snapshots'',
      url_searchParams = [(''source'', ''realtime'')], req_body = JUndefined\<rparr> =
   Returned (StatusPayload 200 sources_payload)"
  using snapshots_source_not_blob [of
     "\<lparr>req_method = GET,
       url_pathname = ''/api/environments/1/session_recordings/12345/snapshots'',
       url_searchParams = [(''source'', ''realtime'')], req_body = JUndefined\<rparr>"
     "''realtime''" example_fixtures]
  by (simp add: example_snapshots_path searchParams_get_def)

section \<open>The query route\<close>

lemma predicate_unreadable:
  assumes "\<not> readable_query_body body"
  shows "events_query_with_one_property body = Inl TypeError"
proof (cases "nullish body")
  case True
  then show ?thesis
    by (simp add: events_query_with_one_property_def getProp_nullish_TypeError)
next
  case b: False
  show ?thesis
  proof (cases "nullish (read body ''query'')")
    case True
    with b show ?thesis
      by (simp add: events_query_with_one_property_def getProp_read getProp_nullish_TypeError)
  next
    case q: False
    from assms b q have "read (read body ''query'') ''kind'' = JStr ''EventsQuery''"
      and "nullish (read (read body ''query'') ''properties'')"
      by (auto simp: readable_query_body_def split: if_splits)
    with b q show ?thesis
      by (simp add: events_query_with_one_property_def getProp_read getProp_nullish_TypeError)
  qed
qed

lemma predicate_readable:
  "readable_query_body body \<Longrightarrow>
   events_query_with_one_property body =
     Inr (read (read body ''query'') ''kind'' = JStr ''EventsQuery'' \<and>
          read (read (read body ''query'') ''properties'') ''length'' = JNum 1)"
  by (auto simp: readable_query_body_def events_query_with_one_property_def
        getProp_read split: if_splits)

lemma query_handler_selects:
  assumes "events_query_with_one_property (req_body req) = Inr b"
  shows "query_handler fx req =
           Inr (Mocked \<lparr>status = 200, content_type = Some ''application/json'',
                  res_body = JsonBody (if b then recordingEventsJson fx
                                       else JObj [(''results'', JArr [])])\<rparr>)"
  using assms
  by (cases b) (simp_all add: query_handler_def res_def ctx_json_def empty_results_def)

lemma one_property_predicate:
  assumes "getProp body ''query'' = Inr q"
    and "getProp q ''kind'' = Inr (JStr ''EventsQuery'')"
    and "getProp q ''properties'' = Inr (JArr ps)"
  shows "events_query_with_one_property body = Inr (length ps = 1)"
  using assms by (simp add: events_query_with_one_property_def)

text \<open>
  C5: a POST request that matches the query route and whose parsed body has a \<open>query\<close>
  of kind \<open>"EventsQuery"\<close> with a \<open>properties\<close> array of exactly one item (the body
  \<open>{query: {kind: "EventsQuery", properties: [p]}}\<close> in particular) is answered with
  the events-query fixture \<open>recordingEventsJson\<close> as JSON.
\<close>

theorem events_query_one_property:
  assumes "req_method req = POST"
    and "path_matches query_route (url_pathname req)"
    and "getProp (req_body req) ''query'' = Inr q"
    and "getProp q ''kind'' = Inr (JStr ''EventsQuery'')"
    and "getProp q ''properties'' = Inr (JArr [p])"
  shows "resolve fx req =
           Returned (Mocked \<lparr>status = 200, content_type = Some ''application/json'',
                             res_body = JsonBody (recordingEventsJson fx)\<rparr>)"
  using query_handler_selects [OF one_property_predicate [OF assms(3,4,5)]]
  by (simp add: resolve_query [OF assms(1,2)])

theorem events_query_one_property_witness:
  "resolve example_fixtures
     \<lparr>req_method = POST, url_pathname = ''/api/environments/1/query'',
      url_searchParams = [],
      req_body = JObj [(''query'',
        JObj [(''kind'', JStr ''EventsQuery''),
              (''properties'', JArr [JObj [(''key'', JStr ''$session_id'')]])])]\<rparr> =
   Returned (Mocked \<lparr>status = 200, content_type = Some ''application/json'',
                     res_body = JsonBody (recordingEventsJson example_fixtures)\<rparr>)"
  by (rule events_query_one_property
        [where q = "JObj [(''kind'', JStr ''EventsQuery''),
                          (''properties'', JArr [JObj [(''key'', JStr ''$session_id'')]])]"
           and p = "JObj [(''key'', JStr ''$session_id'')]"])
     (simp_all add: example_query_path)

text \<open>
  C6: a POST request that matches the query route and whose parsed body has a \<open>query\<close>
  of kind \<open>"EventsQuery"\<close> with an empty \<open>properties\<close> array (the body
  \<open>{query: {kind: "EventsQuery", properties: []}}\<close> in particular) is answered with
  the empty-result default \<open>{results: []}\<close> as JSON.
\<close>

theorem events_query_no_property:
  assumes "req_method req = POST"
    and "path_matches query_route (url_pathname req)"
    and "getProp (req_body req) ''query'' = Inr q"
    and "getProp q ''kind'' = Inr (JStr ''EventsQuery'')"
    and "getProp q ''properties'' = Inr (JArr [])"
  shows "resolve fx req =
           Returned (Mocked \<lparr>status = 200, content_type = Some ''application/json'',
                             res_body = JsonBody (JObj [(''results'', JArr [])])\<rparr>)"
  using query_handler_selects [OF one_property_predicate [OF assms(3,4,5)]]
  by (simp add: resolve_query [OF assms(1,2)])

theorem events_query_no_property_witness:
  "resolve example_fixtures
     \<lparr>req_method = POST, url_pathname = ''/api/environments/1/query'',
      url_searchParams = [],
      req_body = JObj [(''query'',
        JObj [(''kind'', JStr ''EventsQuery''), (''properties'', JArr [])])]\<rparr> =
   Returned (Mocked \<lparr>status = 200, content_type = Some ''application/json'',
                     res_body = JsonBody (JObj [(''results'', JArr [])])\<rparr>)"
  by (rule events_query_no_property
        [where q = "JObj [(''kind'', JStr ''EventsQuery''), (''properties'', JArr [])]"])
     (simp_all add: example_query_path)

text \<open>
  An \<open>EventsQuery\<close> body without \<open>properties\<close> matches the query route, and the
  handler throws on it: reading \<open>length\<close> of \<open>undefined\<close> is a TypeError.
\<close>

theorem query_without_properties_raises:
  "req_method \<lparr>req_method = POST, url_pathname = ''/api/environments/1/query'',
      url_searchParams = [],
      req_body = JObj [(''query'', JObj [(''kind'', JStr ''EventsQuery'')])]\<rparr> = POST \<and>
   path_matches query_route ''/api/environments/1/query'' \<and>
   resolve example_fixtures
     \<lparr>req_method = POST, url_pathname = ''/api/environments/1/query'',
      url_searchParams = [],
      req_body = JObj [(''query'', JObj [(''kind'', JStr ''EventsQuery'')])]\<rparr> =
   Raised TypeError"
  by (simp add: example_query_path resolve_def mocks_def query_handler_def
        events_query_with_one_property_def)

text \<open>
  C4, as amended: for every POST request that matches the query route and whose body
  can be read (the body and \<open>body.query\<close> are neither \<open>undefined\<close> nor \<open>null\<close>, and
  for kind \<open>"EventsQuery"\<close> neither is \<open>body.query.properties\<close>), exactly one answer is
  selected: the events fixture when the kind is \<open>"EventsQuery"\<close> and
  \<open>properties.length\<close> is 1, the default \<open>{results: []}\<close> otherwise; the result is
  neither \<open>NoMatch\<close> nor an exception. On every other body of a matched request the
  handler throws a TypeError.
\<close>

theorem query_route_resolution:
  assumes "req_method req = POST"
    and "path_matches query_route (url_pathname req)"
  shows "resolve fx req =
           (if readable_query_body (req_body req)
            then Returned (Mocked \<lparr>status = 200, content_type = Some ''application/json'',
                   res_body = JsonBody
                     (if read (read (req_body req) ''query'') ''kind'' = JStr ''EventsQuery'' \<and>
                         read (read (read (req_body req) ''query'') ''properties'') ''length''
                           = JNum 1
                      then recordingEventsJson fx
                      else JObj [(''results'', JArr [])])\<rparr>)
            else Raised TypeError)"
proof (cases "readable_query_body (req_body req)")
  case True
  from query_handler_selects [OF predicate_readable [OF True]] show ?thesis
    using True by (simp add: resolve_query [OF assms])
next
  case False
  from predicate_unreadable [OF False] show ?thesis
    using False by (simp add: resolve_query [OF assms] query_handler_def)
qed

theorem query_route_resolution_witness:
  "resolve example_fixtures
     \<lparr>req_method = POST, url_pathname = ''/api/environments/1/query'',
      url_searchParams = [],
      req_body = JObj [(''query'', JObj [(''kind'', JStr ''HogQLQuery'')])]\<rparr> =
   Returned (Mocked \<lparr>status = 200, content_type = Some ''application/json'',
                     res_body = JsonBody (JObj [(''results'', JArr [])])\<rparr>)"
  using query_route_resolution [of
     "\<lparr>req_method = POST, url_pathname = ''/api/environments/1/query'',
       url_searchParams = [],
       req_body = JObj [(''query'', JObj [(''kind'', JStr ''HogQLQuery'')])]\<rparr>"
     example_fixtures]
  by (simp add: example_query_path readable_query_body_def nullish_def read_def)

section \<open>Executions of the story\<close>

text \<open>
  The metadata states in which \<open>loadEvents\<close> is dispatched: at the mount, whatever the
  state is, and afterwards at each render whose \<open>sessionPlayerMetaData\<close> differs from
  that of the render before.
\<close>

lemma issued_mount:
  "issued loadEvents (story (s # ss)) =
     s # issued loadEvents (renders (Some (sessionPlayerMetaData s)) ss)"
  by (simp add: story_def BasicTemplate_def useEffect_def issued_def)

lemma issued_rerender:
  "issued loadEvents (renders (Some v) (s # ss)) =
     (if sessionPlayerMetaData s = v then [] else [s]) @
     issued loadEvents (renders (Some (sessionPlayerMetaData s)) ss)"
  by (simp add: BasicTemplate_def useEffect_def issued_def)

lemma issued_static:
  "\<forall>s \<in> set ss. sessionPlayerMetaData s = v \<Longrightarrow>
   issued loadEvents (renders (Some v) ss) = []"
  by (induction ss) (simp_all add: BasicTemplate_def useEffect_def issued_def)

lemma issued_at_first_loaded:
  "\<forall>s \<in> set pre. sessionPlayerMetaData s = None \<Longrightarrow>
   issued loadEvents (renders (Some None) (pre @ Loaded m # post)) =
     Loaded m # issued loadEvents (renders (Some (Some m)) post)"
  by (induction pre) (simp_all add: BasicTemplate_def useEffect_def issued_def)

text \<open>
  An execution that mounts before the metadata is loaded and then sees it loaded
  dispatches \<open>loadEvents\<close> twice, at the mount and at the first loaded render; later
  renders with the same metadata dispatch none.
\<close>

lemma issued_at_mount_and_at_loaded:
  assumes "sessionPlayerMetaData s = None"
    and "\<forall>t \<in> set pre. sessionPlayerMetaData t = None"
    and "\<forall>t \<in> set post. t = Loaded m"
  shows "issued loadEvents (story (s # pre @ Loaded m # post)) = [s, Loaded m]"
proof -
  have "\<forall>t \<in> set post. sessionPlayerMetaData t = Some m"
    using assms(3) by auto
  then have "issued loadEvents (renders (Some (Some m)) post) = []"
    by (rule issued_static)
  then show ?thesis
    using assms(1) issued_at_first_loaded [OF assms(2)] by (simp add: issued_mount)
qed

text \<open>An execution that never sees the metadata loaded dispatches it once, at the mount.\<close>

lemma issued_only_at_mount:
  assumes "sessionPlayerMetaData s = None"
    and "\<forall>t \<in> set ss. sessionPlayerMetaData t = None"
  shows "issued loadEvents (story (s # ss)) = [s]"
  using issued_static [OF assms(2)] assms(1) by (simp add: issued_mount)

text \<open>
  C1 says that \<open>loadEvents\<close> is never issued while the session metadata is unloaded or
  loading. The story mounted with unloaded metadata and rendered again while it is
  loading: \<open>loadEvents\<close> is dispatched once, in the unloaded state, by the effect's run
  after the first render.
\<close>

theorem loadEvents_issued_while_unloaded:
  "issued loadEvents (story [Unloaded :: jsval LoadState, Loading]) = [Unloaded]"
  by (simp add: story_def BasicTemplate_def useEffect_def issued_def)

text \<open>
  C2 says that \<open>loadEvents\<close> is issued exactly once, at the first transition of the
  metadata to loaded, and not before. The story rendered through unloaded, loading and
  loaded metadata, and once more with the same loaded metadata: \<open>loadEvents\<close> is
  dispatched twice, in the unloaded state at the mount and at the first loaded render.
\<close>

theorem loadEvents_issued_twice:
  "issued loadEvents
     (story [Unloaded, Loading, Loaded (JObj [(''id'', JStr ''12345'')]),
             Loaded (JObj [(''id'', JStr ''12345'')])]) =
   [Unloaded, Loaded (JObj [(''id'', JStr ''12345'')])]"
  by (simp add: story_def BasicTemplate_def useEffect_def issued_def)

section \<open>Starting a load twice\<close>

lemma startLoad_keeps_loading:
  "loadState st kind = Loading \<Longrightarrow> loadState (startLoad k st) kind = Loading"
  by (simp add: startLoad_def split: LoadState.splits)

lemma startLoad_keeps_count:
  "loadState st kind = Loading \<Longrightarrow>
   count_list (interceptions (startLoad k st)) kind = count_list (interceptions st) kind"
  by (cases "k = kind") (auto simp: startLoad_def split: LoadState.splits)

lemma fold_startLoad_keeps_count:
  "loadState st kind = Loading \<Longrightarrow>
   count_list (interceptions (fold startLoad ks st)) kind = count_list (interceptions st) kind"
proof (induction ks arbitrary: st)
  case Nil
  show ?case by simp
next
  case (Cons k ks)
  have "count_list (interceptions (fold startLoad ks (startLoad k st))) kind =
        count_list (interceptions (startLoad k st)) kind"
    by (rule Cons.IH) (rule startLoad_keeps_loading [OF Cons.prems])
  with startLoad_keeps_count [OF Cons.prems] show ?case by simp
qed

text \<open>
  From a fresh facade, any sequence of start calls records at most one interception for
  each kind.
\<close>

lemma startLoad_at_most_one:
  assumes "count_list (interceptions st) kind \<le> 1"
    and "loadState st kind = Unloaded \<Longrightarrow> count_list (interceptions st) kind = 0"
  shows "count_list (interceptions (startLoad k st)) kind \<le> 1 \<and>
         (loadState (startLoad k st) kind = Unloaded \<longrightarrow>
            count_list (interceptions (startLoad k st)) kind = 0)"
  using assms by (cases "k = kind") (auto simp: startLoad_def split: LoadState.splits)

lemma fold_startLoad_at_most_one:
  "count_list (interceptions st) kind \<le> 1 \<Longrightarrow>
   (loadState st kind = Unloaded \<longrightarrow> count_list (interceptions st) kind = 0) \<Longrightarrow>
   count_list (interceptions (fold startLoad ks st)) kind \<le> 1"
proof (induction ks arbitrary: st)
  case Nil
  then show ?case by simp
next
  case (Cons k ks)
  from startLoad_at_most_one [of st kind k] Cons.prems
  have "count_list (interceptions (startLoad k st)) kind \<le> 1"
    and "loadState (startLoad k st) kind = Unloaded \<longrightarrow>
           count_list (interceptions (startLoad k st)) kind = 0"
    by simp_all
  then have "count_list (interceptions (fold startLoad ks (startLoad k st))) kind \<le> 1"
    by (rule Cons.IH)
  then show ?case by simp
qed

lemma interceptions_at_most_one:
  "count_list (interceptions
     (fold startLoad ks \<lparr>loadState = (\<lambda>k. Unloaded), interceptions = []\<rparr>)) kind \<le> 1"
  by (rule fold_startLoad_at_most_one) simp_all

text \<open>
  C9: for every load kind, \<open>startLoad\<close> called while that kind is loading changes
  nothing, and however many further start calls follow (of this kind or another) while
  it stays loading, the number of interceptions recorded for the kind does not grow.
\<close>

theorem startLoad_while_loading:
  assumes "loadState st kind = Loading"
  shows "startLoad kind st = st \<and>
         count_list (interceptions (fold startLoad ks (startLoad kind st))) kind =
           count_list (interceptions st) kind"
proof -
  have "startLoad kind st = st"
    using assms by (simp add: startLoad_def)
  then show ?thesis
    using fold_startLoad_keeps_count [OF assms] by simp
qed

theorem startLoad_while_loading_witness:
  "interceptions (startLoad ''snapshots''
      (startLoad ''snapshots''
        \<lparr>loadState = (\<lambda>k. Unloaded :: jsval LoadState), interceptions = []\<rparr>)) =
   [''snapshots'']"
  using startLoad_while_loading [of
     "startLoad ''snapshots''
        \<lparr>loadState = (\<lambda>k. Unloaded :: jsval LoadState), interceptions = []\<rparr>"
     "''snapshots''" "[]"]
  by (simp add: startLoad_def)

end
